theory Spec2Isabelle
  imports Main "HOL-Library.Word"
begin

section \<open>The repository analyzer of documentation\_bot.py\<close>

text \<open>
  The embedding covers the class \<open>RepositoryAnalyzer\<close> of \<open>src/documentation_bot.py\<close>:
  its constructor, \<open>analyze\<close>, \<open>_should_ignore_file\<close> and \<open>_analyze_file\<close>.
  Names that Python starts with an underscore lose it, since an Isabelle name cannot
  start with one.

  The file system is an input of the program. Every call the code makes on it
  (\<open>exists\<close>, \<open>rglob\<close>, \<open>is_file\<close>, \<open>stat\<close>, \<open>open\<close>/\<open>read\<close>,
  \<open>read_text\<close>) is modelled by the answer the file system gives, an exception being the
  answer \<open>None\<close>. The answers to different calls on one file are independent fields,
  because a file can change or vanish between two calls.
\<close>

subsection \<open>Errors, paths and strings\<close>

datatype error = ValueError | OSError

text \<open>A \<open>pathlib\<close> path is the sequence of its parts.\<close>

type_synonym path = "string list"

type_synonym byte = "8 word"

text \<open>\<open>str(path)\<close> on a POSIX flavour: the parts joined by a slash.\<close>

fun str_path :: "path \<Rightarrow> string" where
  "str_path [] = ''.''"
| "str_path [p] = p"
| "str_path (p # q # ps) = p @ ''/'' @ str_path (q # ps)"

text \<open>\<open>PurePath.name\<close>: the final part, the empty string when there is none.\<close>

definition path_name :: "path \<Rightarrow> string" where
  "path_name ps = (if ps = [] then [] else last ps)"

text \<open>\<open>str.rfind\<close> for one character; \<open>None\<close> is Python's \<open>-1\<close>.\<close>

fun rfind :: "char \<Rightarrow> string \<Rightarrow> nat option" where
  "rfind c [] = None"
| "rfind c (x # xs) =
     (case rfind c xs of
        Some i \<Rightarrow> Some (Suc i)
      | None \<Rightarrow> if x = c then Some 0 else None)"

text \<open>
  \<open>PurePath.suffix\<close> of a file name, as \<open>pathlib\<close> computes it:
  \<^verbatim>\<open>i = name.rfind('.'); return name[i:] if 0 < i < len(name) - 1 else ''\<close>.
\<close>

definition suffix_of :: "string \<Rightarrow> string" where
  "suffix_of name =
     (case rfind CHR ''.'' name of
        None \<Rightarrow> []
      | Some i \<Rightarrow> if 0 < i \<and> Suc i < length name then drop i name else [])"

text \<open>
  \<open>str.lower\<close>, \<open>str.strip\<close> and \<open>str.split('\n')\<close> on ASCII text: file names and
  requirement lines are taken to be ASCII, a \<open>char\<close> being one byte.
\<close>

definition lower_char :: "char \<Rightarrow> char" where
  "lower_char c =
     (case map_of (zip ''ABCDEFGHIJKLMNOPQRSTUVWXYZ'' ''abcdefghijklmnopqrstuvwxyz'') c of
        Some l \<Rightarrow> l
      | None \<Rightarrow> c)"

definition lower :: "string \<Rightarrow> string" where
  "lower s = map lower_char s"

definition isspace :: "char \<Rightarrow> bool" where
  "isspace c = (let n = (of_char c :: nat) in (9 \<le> n \<and> n \<le> 13) \<or> (28 \<le> n \<and> n \<le> 32))"

definition strip :: "string \<Rightarrow> string" where
  "strip s = rev (dropWhile isspace (rev (dropWhile isspace s)))"

fun split_lines :: "string \<Rightarrow> string list" where
  "split_lines [] = [] # []"
| "split_lines (c # cs) =
     (if c = CHR 0x0A then [] # split_lines cs
      else (case split_lines cs of
              [] \<Rightarrow> [c] # []
            | l # ls \<Rightarrow> (c # l) # ls))"

text \<open>\<open>line.startswith(p)\<close> and \<open>sub in line\<close>.\<close>

definition startswith :: "string \<Rightarrow> string \<Rightarrow> bool" where
  "startswith s p = (take (length p) s = p)"

fun contains :: "string \<Rightarrow> string \<Rightarrow> bool" where
  "contains [] sub = (sub = [])"
| "contains (c # cs) sub = (take (length sub) (c # cs) = sub \<or> contains cs sub)"

subsection \<open>The file system as the code sees it\<close>

text \<open>
  One entry that \<open>repo_path.rglob('*')\<close> yields. \<open>rel_parts\<close> is the path relative to
  the root, so the path the loop holds is \<open>repo_path @ rel_parts\<close>. \<open>Path.is_file()\<close>
  answers \<open>False\<close> for a path that is gone and raises every other error of its own
  \<open>stat\<close> call, permission denied for one; \<open>None\<close> is that exception.
\<close>

record entry =
  rel_parts :: path
  is_file :: "bool option"
  st_size :: "nat option"
  rb_content :: "byte list option"
  read_text :: "string option"

text \<open>
  The root: whether it exists, whether it is a directory, and the entries below it in
  the order in which the directory walk produces them. \<open>rglob\<close> on a path that is not
  a directory yields nothing.
\<close>

record filesystem =
  path_exists :: bool
  path_is_dir :: bool
  walk :: "entry list"

definition rglob :: "filesystem \<Rightarrow> entry list" where
  "rglob fs = (if path_is_dir fs then walk fs else [])"

definition file_path :: "path \<Rightarrow> entry \<Rightarrow> path" where
  "file_path repo_path e = repo_path @ rel_parts e"

subsection \<open>The result dictionary\<close>

text \<open>
  \<open>file_types\<close> and \<open>languages\<close> are Python sets while the scan runs; the final
  \<open>list(...)\<close> of each fixes no order, so they stay sets here.
\<close>

record result =
  file_types :: "string set"
  languages :: "string set"
  "structure" :: "string list"
  main_files :: "string list"
  config_files :: "string list"
  dependencies :: "string list"
  project_type :: string

definition initial_result :: result where
  "initial_result =
     \<lparr>file_types = {}, languages = {}, structure = [], main_files = [],
      config_files = [], dependencies = [], project_type = ''unknown''\<rparr>"

subsection \<open>RepositoryAnalyzer\<close>

text \<open>\<open>__init__\<close>: the only check is \<open>exists()\<close>.\<close>

definition init :: "filesystem \<Rightarrow> path \<Rightarrow> error + path" where
  "init fs repo_path = (if \<not> path_exists fs then Inl ValueError else Inr repo_path)"

definition ignore_dirs :: "string set" where
  "ignore_dirs =
     {''.git'', ''__pycache__'', ''.pytest_cache'', ''node_modules'', ''.venv'', ''venv''}"

text \<open>
  \<open>_should_ignore_file\<close>. The \<open>stat\<close> call stands outside the \<open>try\<close>, so its
  exception leaves the function; the bare \<open>except\<close> around \<open>open\<close> and \<open>read\<close>
  turns theirs into \<open>True\<close>.
\<close>

definition should_ignore_file :: "path \<Rightarrow> entry \<Rightarrow> error + bool" where
  "should_ignore_file repo_path e =
     (if \<exists>part \<in> set (file_path repo_path e). part \<in> ignore_dirs then Inr True
      else case st_size e of
        None \<Rightarrow> Inl OSError
      | Some n \<Rightarrow>
          if n > 1024 * 1024 then Inr True
          else case rb_content e of
            None \<Rightarrow> Inr True
          | Some bytes \<Rightarrow>
              (let chunk = take 1024 bytes in
               if (0 :: byte) \<in> set chunk then Inr True else Inr False))"

definition main_names :: "string set" where
  "main_names = {''main.py'', ''app.py'', ''index.py'', ''run.py''}"

definition config_names :: "string set" where
  "config_names =
     {''requirements.txt'', ''package.json'', ''setup.py'', ''pyproject.toml'',
      ''dockerfile'', ''docker-compose.yml'', ''.env.example'', ''config.json''}"

text \<open>The loop over the lines of a requirements file.\<close>

fun add_dependencies :: "string list \<Rightarrow> result \<Rightarrow> result" where
  "add_dependencies [] r = r"
| "add_dependencies (l # ls) r =
     (let line = strip l in
      if line \<noteq> [] \<and> \<not> startswith line ''#'' \<and> contains line ''==''
      then add_dependencies ls (r\<lparr>dependencies := dependencies r @ [line]\<rparr>)
      else add_dependencies ls r)"

text \<open>The \<open>if\<close>/\<open>elif\<close> chain on the suffix.\<close>

definition detect_language :: "string \<Rightarrow> result \<Rightarrow> result" where
  "detect_language suffix r =
     (if suffix = ''.py'' then
        (let r1 = r\<lparr>languages := insert ''Python'' (languages r)\<rparr> in
         if project_type r1 = [] \<or> project_type r1 = ''unknown''
         then r1\<lparr>project_type := ''Python''\<rparr> else r1)
      else if suffix \<in> {''.js'', ''.jsx'', ''.ts'', ''.tsx''} then
        (let r1 = r\<lparr>languages := insert ''JavaScript'' (languages r)\<rparr> in
         if project_type r1 = [] \<or> project_type r1 = ''unknown''
         then r1\<lparr>project_type := ''JavaScript''\<rparr> else r1)
      else if suffix \<in> {''.html'', ''.htm''} then r\<lparr>languages := insert ''HTML'' (languages r)\<rparr>
      else if suffix = ''.css'' then r\<lparr>languages := insert ''CSS'' (languages r)\<rparr>
      else if suffix = ''.json'' then r\<lparr>languages := insert ''JSON'' (languages r)\<rparr>
      else if suffix = ''.md'' then r\<lparr>languages := insert ''Markdown'' (languages r)\<rparr>
      else if suffix \<in> {''.yml'', ''.yaml''} then r\<lparr>languages := insert ''YAML'' (languages r)\<rparr>
      else if suffix = ''.txt'' then r\<lparr>languages := insert ''Text'' (languages r)\<rparr>
      else r)"

text \<open>\<open>_analyze_file\<close>; a failing \<open>read_text\<close> is swallowed by the bare \<open>except\<close>.\<close>

definition analyze_file :: "path \<Rightarrow> entry \<Rightarrow> result \<Rightarrow> result" where
  "analyze_file repo_path e r =
     (let filename = lower (path_name (file_path repo_path e));
          suffix = lower (suffix_of (path_name (file_path repo_path e)));
          r1 = (if filename \<in> main_names
                then r\<lparr>main_files := main_files r @ [str_path (rel_parts e)]\<rparr> else r);
          r2 = (if filename \<in> config_names
                then r1\<lparr>config_files := config_files r1 @ [str_path (rel_parts e)]\<rparr> else r1);
          r3 = detect_language suffix r2
      in if filename = ''requirements.txt'' then
           (case read_text e of
              None \<Rightarrow> r3
            | Some content \<Rightarrow> add_dependencies (split_lines content) r3)
         else r3)"

text \<open>The body of the loop of \<open>analyze\<close> for a file that is not ignored.\<close>

definition record_file :: "path \<Rightarrow> entry \<Rightarrow> result \<Rightarrow> result" where
  "record_file repo_path e r =
     (let r1 = r\<lparr>structure := structure r @ [str_path (rel_parts e)]\<rparr>;
          suffix = lower (suffix_of (path_name (file_path repo_path e)));
          r2 = (if suffix \<noteq> [] then r1\<lparr>file_types := insert suffix (file_types r1)\<rparr> else r1)
      in analyze_file repo_path e r2)"

text \<open>
  The loop of \<open>analyze\<close> over the entries of the walk. The condition calls
  \<open>is_file()\<close> first, outside any \<open>try\<close>, and \<open>_should_ignore_file\<close> only when it
  answered \<open>True\<close>.
\<close>

fun analyze_loop :: "path \<Rightarrow> entry list \<Rightarrow> result \<Rightarrow> error + result" where
  "analyze_loop repo_path [] r = Inr r"
| "analyze_loop repo_path (e # es) r =
     (case is_file e of
        None \<Rightarrow> Inl OSError
      | Some False \<Rightarrow> analyze_loop repo_path es r
      | Some True \<Rightarrow>
          (case should_ignore_file repo_path e of
             Inl err \<Rightarrow> Inl err
           | Inr True \<Rightarrow> analyze_loop repo_path es r
           | Inr False \<Rightarrow> analyze_loop repo_path es (record_file repo_path e r)))"

definition analyze :: "filesystem \<Rightarrow> path \<Rightarrow> error + result" where
  "analyze fs repo_path = analyze_loop repo_path (rglob fs) initial_result"

text \<open>A scan: construct the analyzer, then call \<open>analyze\<close>.\<close>

definition scan :: "filesystem \<Rightarrow> path \<Rightarrow> error + result" where
  "scan fs repo_path =
     (case init fs repo_path of
        Inl err \<Rightarrow> Inl err
      | Inr p \<Rightarrow> analyze fs p)"

section \<open>Notions used to state the properties\<close>

text \<open>
  The local variables \<open>filename\<close> and \<open>suffix\<close> of \<open>_analyze_file\<close>, as functions
  of the entry.
\<close>

definition filename_of :: "path \<Rightarrow> entry \<Rightarrow> string" where
  "filename_of repo_path e = lower (path_name (file_path repo_path e))"

definition extension_of :: "path \<Rightarrow> entry \<Rightarrow> string" where
  "extension_of repo_path e = lower (suffix_of (path_name (file_path repo_path e)))"

text \<open>
  The table of the specification that maps an extension to a language. It is written
  from the table, not from \<open>detect_language\<close>; lemma \<open>detect_language_eq\<close> below
  relates the two.
\<close>

definition language_of :: "string \<Rightarrow> string option" where
  "language_of suffix =
     (if suffix = ''.py'' then Some ''Python''
      else if suffix \<in> {''.js'', ''.jsx'', ''.ts'', ''.tsx''} then Some ''JavaScript''
      else if suffix \<in> {''.html'', ''.htm''} then Some ''HTML''
      else if suffix = ''.css'' then Some ''CSS''
      else if suffix = ''.json'' then Some ''JSON''
      else if suffix = ''.md'' then Some ''Markdown''
      else if suffix \<in> {''.yml'', ''.yaml''} then Some ''YAML''
      else if suffix = ''.txt'' then Some ''Text''
      else None)"

text \<open>The extensions of the primary languages, and a project type that is still unset.\<close>

definition primary :: "string \<Rightarrow> bool" where
  "primary suffix = (suffix \<in> {''.py'', ''.js'', ''.jsx'', ''.ts'', ''.tsx''})"

definition unset :: "string \<Rightarrow> bool" where
  "unset t = (t = [] \<or> t = ''unknown'')"

definition primary_language :: "string \<Rightarrow> string option" where
  "primary_language suffix =
     (if suffix = ''.py'' then Some ''Python''
      else if suffix \<in> {''.js'', ''.jsx'', ''.ts'', ''.tsx''} then Some ''JavaScript''
      else None)"

text \<open>
  The language of the first extension in a sequence that belongs to a primary language,
  \<open>unknown\<close> when there is none.
\<close>

fun first_primary :: "string list \<Rightarrow> string" where
  "first_primary [] = ''unknown''"
| "first_primary (s # ss) =
     (case primary_language s of Some l \<Rightarrow> l | None \<Rightarrow> first_primary ss)"

text \<open>
  The dependency lines of a requirements text as the specification words them: the
  trimmed lines that are not empty, do not start with \<open>#\<close> and contain \<open>==\<close>, in the
  order of the file. \<open>manifest_lines\<close> is what one file contributes: those lines when
  the file is named \<open>requirements.txt\<close> and its text can be read, nothing otherwise.
\<close>

definition requirement_lines :: "string \<Rightarrow> string list" where
  "requirement_lines content =
     filter (\<lambda>line. line \<noteq> [] \<and> \<not> startswith line ''#'' \<and> contains line ''=='')
       (map strip (split_lines content))"

definition manifest_lines :: "path \<Rightarrow> entry \<Rightarrow> string list" where
  "manifest_lines repo_path e =
     (if filename_of repo_path e = ''requirements.txt''
      then (case read_text e of None \<Rightarrow> [] | Some content \<Rightarrow> requirement_lines content)
      else [])"

text \<open>
  A retained file is one for which the condition of the loop of \<open>analyze\<close> holds. An
  entry makes the scan raise when \<open>is_file()\<close> raises, or when it answers \<open>True\<close> and
  the \<open>stat\<close> call of \<open>_should_ignore_file\<close> is reached and fails.
\<close>

definition retained :: "path \<Rightarrow> entry \<Rightarrow> bool" where
  "retained repo_path e = (is_file e = Some True \<and> should_ignore_file repo_path e = Inr False)"

definition entry_raises :: "path \<Rightarrow> entry \<Rightarrow> bool" where
  "entry_raises repo_path e =
     (is_file e = None \<or> (is_file e = Some True \<and> should_ignore_file repo_path e = Inl OSError))"

text \<open>
  The ignore policy as the specification words it, on the path of the file below the
  root: no segment of that path is an ignored name, the size is at most 1 MiB, and the
  first 1024 bytes can be read and hold no null byte.
\<close>

definition passes_policy :: "entry \<Rightarrow> bool" where
  "passes_policy e =
     ((\<forall>part \<in> set (rel_parts e). part \<notin> ignore_dirs) \<and>
      (case st_size e of None \<Rightarrow> False | Some n \<Rightarrow> n \<le> 1048576) \<and>
      (case rb_content e of None \<Rightarrow> False | Some bytes \<Rightarrow> (0 :: byte) \<notin> set (take 1024 bytes)))"

text \<open>The loop body applied to a sequence of retained files.\<close>

abbreviation record_files :: "path \<Rightarrow> result \<Rightarrow> entry list \<Rightarrow> result" where
  "record_files rp r xs \<equiv> foldl (\<lambda>acc e. record_file rp e acc) r xs"

subsection \<open>Example trees\<close>

text \<open>
  A readable regular file with ASCII text, an existing directory with a given walk, and
  a small repository: a file below \<open>.git\<close>, an entry point, a Dockerfile, a requirements
  file, a second requirements file whose text cannot be read, and a file of an unmapped
  type.
\<close>

definition text_file :: "path \<Rightarrow> string \<Rightarrow> entry" where
  "text_file rel content =
     \<lparr>rel_parts = rel, is_file = Some True, st_size = Some (length content),
      rb_content = Some (map (\<lambda>c. of_nat (of_char c)) content), read_text = Some content\<rparr>"

definition directory :: "entry list \<Rightarrow> filesystem" where
  "directory es = \<lparr>path_exists = True, path_is_dir = True, walk = es\<rparr>"

definition example_walk :: "entry list" where
  "example_walk =
     [text_file [''.git'', ''config''] ''[core]'',
      text_file [''Main.py''] ''print(1)'',
      text_file [''Dockerfile''] ''FROM a'',
      text_file [''requirements.txt''] ''a==1\<newline># b==2\<newline> c==3 \<newline>d'',
      (text_file [''sub'', ''Requirements.TXT''] ''e==5'')\<lparr>read_text := None\<rparr>,
      text_file [''notes.xyz''] ''n'']"

definition example_result :: result where
  "example_result =
     \<lparr>file_types = {''.py'', ''.txt'', ''.xyz''}, languages = {''Python'', ''Text''},
      structure = [''Main.py'', ''Dockerfile'', ''requirements.txt'', ''sub/Requirements.TXT'',
                   ''notes.xyz''],
      main_files = [''Main.py''],
      config_files = [''Dockerfile'', ''requirements.txt'', ''sub/Requirements.TXT''],
      dependencies = [''a==1'', ''c==3''], project_type = ''Python''\<rparr>"

section \<open>The loop in closed form\<close>

lemma detect_language_eq:
  "detect_language s r =
     r\<lparr>languages := languages r \<union> set_option (language_of s),
       project_type := (if primary s \<and> unset (project_type r) then the (language_of s)
                        else project_type r)\<rparr>"
  by (simp add: detect_language_def language_of_def primary_def unset_def Let_def)

lemma add_dependencies_eq:
  "add_dependencies ls r =
     r\<lparr>dependencies := dependencies r @
        filter (\<lambda>line. line \<noteq> [] \<and> \<not> startswith line ''#'' \<and> contains line ''=='') (map strip ls)\<rparr>"
  by (induction ls arbitrary: r) (simp_all add: Let_def)

lemma analyze_file_eq:
  "analyze_file rp e r =
     r\<lparr>main_files := main_files r @ (if filename_of rp e \<in> main_names then [str_path (rel_parts e)] else []),
       config_files := config_files r @ (if filename_of rp e \<in> config_names then [str_path (rel_parts e)] else []),
       languages := languages r \<union> set_option (language_of (extension_of rp e)),
       project_type := (if primary (extension_of rp e) \<and> unset (project_type r)
                        then the (language_of (extension_of rp e)) else project_type r),
       dependencies := dependencies r @ manifest_lines rp e\<rparr>"
proof -
  define fn where "fn = lower (path_name (file_path rp e))"
  define sx where "sx = lower (suffix_of (path_name (file_path rp e)))"
  define p where "p = str_path (rel_parts e)"
  define r1 where "r1 = (if fn \<in> main_names then r\<lparr>main_files := main_files r @ [p]\<rparr> else r)"
  define r2 where "r2 = (if fn \<in> config_names then r1\<lparr>config_files := config_files r1 @ [p]\<rparr> else r1)"
  define r3 where "r3 = detect_language sx r2"
  have r1: "r1 = r\<lparr>main_files := main_files r @ (if fn \<in> main_names then [p] else [])\<rparr>"
    by (simp add: r1_def)
  have r2: "r2 = r1\<lparr>config_files := config_files r1 @ (if fn \<in> config_names then [p] else [])\<rparr>"
    by (simp add: r2_def)
  have r3: "r3 = r2\<lparr>languages := languages r2 \<union> set_option (language_of sx),
       project_type := (if primary sx \<and> unset (project_type r2) then the (language_of sx)
                        else project_type r2)\<rparr>"
    unfolding r3_def by (rule detect_language_eq)
  have af: "analyze_file rp e r =
      (if fn = ''requirements.txt'' then
           (case read_text e of
              None \<Rightarrow> r3
            | Some content \<Rightarrow> add_dependencies (split_lines content) r3)
         else r3)"
    unfolding analyze_file_def Let_def r3_def r2_def r1_def fn_def sx_def p_def ..
  have af2: "analyze_file rp e r = r3\<lparr>dependencies := dependencies r3 @ manifest_lines rp e\<rparr>"
    unfolding af manifest_lines_def filename_of_def fn_def[symmetric] requirement_lines_def
    by (simp add: add_dependencies_eq split: option.splits)
  show ?thesis
    unfolding af2 filename_of_def extension_of_def fn_def[symmetric] sx_def[symmetric] p_def[symmetric]
    unfolding r3 r2 r1
    by simp
qed

lemma record_file_eq:
  "record_file rp e r =
     r\<lparr>structure := structure r @ [str_path (rel_parts e)],
       file_types := file_types r \<union> (if extension_of rp e \<noteq> [] then {extension_of rp e} else {}),
       main_files := main_files r @ (if filename_of rp e \<in> main_names then [str_path (rel_parts e)] else []),
       config_files := config_files r @ (if filename_of rp e \<in> config_names then [str_path (rel_parts e)] else []),
       languages := languages r \<union> set_option (language_of (extension_of rp e)),
       project_type := (if primary (extension_of rp e) \<and> unset (project_type r)
                        then the (language_of (extension_of rp e)) else project_type r),
       dependencies := dependencies r @ manifest_lines rp e\<rparr>"
proof -
  define r1 where "r1 = r\<lparr>structure := structure r @ [str_path (rel_parts e)]\<rparr>"
  define r2 where "r2 = r1\<lparr>file_types := file_types r1 \<union> (if extension_of rp e \<noteq> [] then {extension_of rp e} else {})\<rparr>"
  have "record_file rp e r = analyze_file rp e r2"
    unfolding record_file_def Let_def r2_def r1_def extension_of_def by simp
  then show ?thesis
    unfolding analyze_file_eq r2_def r1_def by simp
qed

lemma should_ignore_file_error: "should_ignore_file rp e = Inl err \<Longrightarrow> err = OSError"
  by (auto simp: should_ignore_file_def Let_def split: if_splits option.splits)

lemma record_file_fields:
  "structure (record_file rp e r) = structure r @ [str_path (rel_parts e)]"
  "file_types (record_file rp e r) =
     file_types r \<union> (if extension_of rp e \<noteq> [] then {extension_of rp e} else {})"
  "languages (record_file rp e r) = languages r \<union> set_option (language_of (extension_of rp e))"
  "main_files (record_file rp e r) =
     main_files r @ (if filename_of rp e \<in> main_names then [str_path (rel_parts e)] else [])"
  "config_files (record_file rp e r) =
     config_files r @ (if filename_of rp e \<in> config_names then [str_path (rel_parts e)] else [])"
  "dependencies (record_file rp e r) = dependencies r @ manifest_lines rp e"
  "project_type (record_file rp e r) =
     (if primary (extension_of rp e) \<and> unset (project_type r)
      then the (language_of (extension_of rp e)) else project_type r)"
  by (simp_all add: record_file_eq)

lemma record_files_structure:
  "structure (record_files rp r xs) = structure r @ map (\<lambda>e. str_path (rel_parts e)) xs"
  by (induction xs arbitrary: r) (simp_all add: record_file_fields)

lemma record_files_file_types:
  "file_types (record_files rp r xs) =
     file_types r \<union> {extension_of rp e | e. e \<in> set xs \<and> extension_of rp e \<noteq> []}"
  by (induction xs arbitrary: r) (auto simp: record_file_fields)

lemma record_files_languages:
  "languages (record_files rp r xs) =
     languages r \<union> (\<Union>e \<in> set xs. set_option (language_of (extension_of rp e)))"
  by (induction xs arbitrary: r) (auto simp: record_file_fields)

lemma record_files_main_files:
  "main_files (record_files rp r xs) =
     main_files r @ map (\<lambda>e. str_path (rel_parts e)) (filter (\<lambda>e. filename_of rp e \<in> main_names) xs)"
  by (induction xs arbitrary: r) (simp_all add: record_file_fields)

lemma record_files_config_files:
  "config_files (record_files rp r xs) =
     config_files r @ map (\<lambda>e. str_path (rel_parts e)) (filter (\<lambda>e. filename_of rp e \<in> config_names) xs)"
  by (induction xs arbitrary: r) (simp_all add: record_file_fields)

lemma record_files_dependencies:
  "dependencies (record_files rp r xs) = dependencies r @ concat (map (manifest_lines rp) xs)"
  by (induction xs arbitrary: r) (simp_all add: record_file_fields)

lemma primary_language_set: "primary s \<Longrightarrow> \<not> unset (the (language_of s))"
  by (auto simp: primary_def language_of_def unset_def)

lemma record_files_project_type:
  "project_type (record_files rp r xs) =
     (if unset (project_type r) then
        (case find (\<lambda>e. primary (extension_of rp e)) xs of
           None \<Rightarrow> project_type r
         | Some e \<Rightarrow> the (language_of (extension_of rp e)))
      else project_type r)"
proof (induction xs arbitrary: r)
  case Nil
  show ?case by simp
next
  case (Cons x xs)
  show ?case
    by (simp add: Cons.IH record_file_fields primary_language_set split: option.splits)
qed

lemma analyze_loop_closed:
  "analyze_loop rp es r =
     (if \<exists>e \<in> set es. entry_raises rp e then Inl OSError
      else Inr (record_files rp r (filter (retained rp) es)))"
proof (induction es arbitrary: r)
  case Nil
  show ?case by simp
next
  case (Cons e es)
  show ?case
  proof (cases "is_file e")
    case None
    then have "entry_raises rp e" by (simp add: entry_raises_def)
    with None show ?thesis by simp
  next
    case (Some f)
    show ?thesis
    proof (cases f)
      case False
      with Some have "\<not> retained rp e" "\<not> entry_raises rp e"
        by (simp_all add: retained_def entry_raises_def)
      with Some False show ?thesis by (simp add: Cons.IH)
    next
      case True
      show ?thesis
      proof (cases "should_ignore_file rp e")
        case (Inl err)
        then have err: "err = OSError" by (rule should_ignore_file_error)
        with Inl Some True have "entry_raises rp e" by (simp add: entry_raises_def)
        with Inl Some True err show ?thesis by simp
      next
        case (Inr b)
        with Some True have ns: "\<not> entry_raises rp e" and rt: "retained rp e = (\<not> b)"
          by (simp_all add: entry_raises_def retained_def)
        from Inr Some True ns rt show ?thesis by (cases b) (simp_all add: Cons.IH)
      qed
    qed
  qed
qed

lemma retained_iff_passes:
  assumes "\<forall>part \<in> set rp. part \<notin> ignore_dirs"
  shows "retained rp e = (is_file e = Some True \<and> passes_policy e)"
  using assms
  by (auto simp: retained_def passes_policy_def should_ignore_file_def file_path_def Let_def
      split: option.splits if_splits)
lemma analyze_loop_Inr:
  assumes "analyze_loop rp es r = Inr p"
  shows "p = record_files rp r (filter (retained rp) es)" and "\<forall>e \<in> set es. \<not> entry_raises rp e"
  using assms unfolding analyze_loop_closed by (auto split: if_splits)

lemma analyze_Inr:
  assumes "analyze fs rp = Inr p"
  shows "p = record_files rp initial_result (filter (retained rp) (rglob fs))"
    and "\<forall>e \<in> set (rglob fs). \<not> entry_raises rp e"
  using assms analyze_loop_Inr unfolding analyze_def by blast+

lemma initial_result_fields:
  "file_types initial_result = {}" "languages initial_result = {}"
  "structure initial_result = []" "main_files initial_result = []"
  "config_files initial_result = []" "dependencies initial_result = []"
  "project_type initial_result = ''unknown''"
  by (simp_all add: initial_result_def)

lemma primary_language_eq:
  "primary_language s = (if primary s then language_of s else None)"
  by (simp add: primary_language_def primary_def language_of_def)

lemma primary_language_known: "primary_language s = Some l \<Longrightarrow> l \<noteq> ''unknown''"
  by (auto simp: primary_language_def split: if_splits)

lemma find_first_primary:
  "(case find (\<lambda>e. primary (extension_of rp e)) xs of
      None \<Rightarrow> ''unknown''
    | Some e \<Rightarrow> the (language_of (extension_of rp e))) =
   first_primary (map (extension_of rp) xs)"
proof (induction xs)
  case Nil
  show ?case by simp
next
  case (Cons x xs)
  show ?case
  proof (cases "primary (extension_of rp x)")
    case True
    then have "language_of (extension_of rp x) \<noteq> None"
      by (auto simp: primary_def language_of_def)
    with True show ?thesis by (auto simp: primary_language_eq)
  next
    case False
    with Cons.IH show ?thesis by (simp add: primary_language_eq)
  qed
qed

lemma first_primary_append:
  "first_primary (xs @ ys) =
     (if first_primary xs \<noteq> ''unknown'' then first_primary xs else first_primary ys)"
  by (induction xs) (auto split: option.splits dest: primary_language_known)

lemma first_primary_none:
  "\<forall>s \<in> set xs. primary_language s = None \<Longrightarrow> first_primary xs = ''unknown''"
  by (induction xs) auto

lemma record_files_project_type_initial:
  "project_type (record_files rp initial_result xs) = first_primary (map (extension_of rp) xs)"
  unfolding record_files_project_type initial_result_fields unset_def
  by (simp add: find_first_primary)

lemma rglob_directory: "rglob (directory es) = es"
  by (simp add: rglob_def directory_def)

lemma analyze_directory: "analyze (directory es) rp = analyze_loop rp es initial_result"
  by (simp add: analyze_def rglob_directory)

lemma analyze_not_ValueError: "analyze fs rp \<noteq> Inl ValueError"
  by (simp add: analyze_def analyze_loop_closed)

lemma entry_raises_read_text [simp]:
  "entry_raises rp (e\<lparr>read_text := x\<rparr>) = entry_raises rp e"
  by (simp add: entry_raises_def should_ignore_file_def file_path_def split: option.splits)

lemma in_structure:
  "e \<in> set xs \<Longrightarrow> str_path (rel_parts e) \<in> set (structure (record_files rp r xs))"
  by (auto simp: record_files_structure)

lemma rfind_Some: "rfind c xs = Some i \<Longrightarrow> i < length xs \<and> xs ! i = c"
  by (induction xs arbitrary: i) (auto split: option.splits if_splits)

lemma lower_char_dot: "lower_char CHR ''.'' = CHR ''.''"
  by (simp add: lower_char_def)

lemma suffix_of_dot: "suffix_of n \<noteq> [] \<Longrightarrow> startswith (lower (suffix_of n)) ''.''"
proof -
  assume ne: "suffix_of n \<noteq> []"
  then obtain i where i: "rfind CHR ''.'' n = Some i" "suffix_of n = drop i n"
    by (auto simp: suffix_of_def split: option.splits if_splits)
  from i(1) have "i < length n" "n ! i = CHR ''.''" by (auto dest: rfind_Some)
  then have "drop i n = CHR ''.'' # drop (Suc i) n" by (metis Cons_nth_drop_Suc)
  with i(2) show ?thesis by (simp add: startswith_def lower_def lower_char_dot)
qed

lemma ignored_name:
  assumes "path_name (file_path rp e) \<in> ignore_dirs"
  shows "should_ignore_file rp e = Inr True"
proof -
  from assms have ne: "file_path rp e \<noteq> []"
    by (auto simp: path_name_def ignore_dirs_def)
  with assms have "last (file_path rp e) \<in> ignore_dirs" by (simp add: path_name_def)
  with ne have "\<exists>part \<in> set (file_path rp e). part \<in> ignore_dirs"
    using last_in_set by blast
  then show ?thesis by (simp add: should_ignore_file_def)
qed

lemma ignored_skipped:
  assumes "is_file e = Some True" and "should_ignore_file rp e = Inr True"
  shows "analyze_loop rp (es1 @ e # es2) r = analyze_loop rp (es1 @ es2) r"
proof -
  from assms have "\<not> entry_raises rp e" "\<not> retained rp e"
    by (simp_all add: entry_raises_def retained_def)
  then show ?thesis by (simp add: analyze_loop_closed)
qed

lemma empty_extension_no_language: "language_of [] = None" "primary_language [] = None"
  by (simp_all add: language_of_def primary_language_def)

lemmas eval_defs = text_file_def should_ignore_file_def file_path_def ignore_dirs_def
  record_file_def analyze_file_def path_name_def suffix_of_def lower_def lower_char_def
  detect_language_def main_names_def config_names_def strip_def isspace_def
  startswith_def Let_def initial_result_def

lemma example_scan: "analyze (directory example_walk) [''repo''] = Inr example_result"
  unfolding analyze_directory example_walk_def example_result_def
  by (simp add: eval_defs insert_commute)

lemma example_distinct:
  "distinct (map (\<lambda>e. str_path (rel_parts e)) (rglob (directory example_walk)))"
  by (simp add: rglob_directory example_walk_def text_file_def)

section \<open>Properties of the scan\<close>

subsection \<open>C1: the ignore policy decides the structure\<close>

text \<open>
  Claim C1, with its last clause amended. Take a root none of whose own path components
  is an ignored name, and assume the scan returns a profile and the walk yields each
  relative path once. Then \<open>structure\<close> lists, in walk order, exactly the regular files
  that pass the ignore policy, so the path of a file is in \<open>structure\<close> if and only if the
  file passes the policy: no component of its path below the root is one of the six
  ignored names, its size is at most 1,048,576 bytes, and its first 1024 bytes can be read
  and hold no null byte. In particular a file larger than 1 MiB is never in
  \<open>structure\<close>. Every member of \<open>file_types\<close> is the extension of some file that passes
  the policy; so the extension of a large file is in \<open>file_types\<close> only when a retained
  file has the same extension. Nothing is said here of a root that has an ignored name
  among its own components.
\<close>

theorem structure_follows_ignore_policy:
  assumes "analyze fs rp = Inr p"
    and "\<forall>part \<in> set rp. part \<notin> ignore_dirs"
    and "distinct (map (\<lambda>e. str_path (rel_parts e)) (rglob fs))"
  shows "structure p =
           map (\<lambda>e. str_path (rel_parts e))
             (filter (\<lambda>e. is_file e = Some True \<and> passes_policy e) (rglob fs)) \<and>
         (\<forall>e \<in> set (rglob fs). is_file e = Some True \<longrightarrow>
            (str_path (rel_parts e) \<in> set (structure p)) = passes_policy e) \<and>
         (\<forall>e \<in> set (rglob fs). \<forall>n. is_file e = Some True \<longrightarrow> st_size e = Some n \<longrightarrow>
            1048576 < n \<longrightarrow> str_path (rel_parts e) \<notin> set (structure p)) \<and>
         (\<forall>t \<in> file_types p. \<exists>e \<in> set (rglob fs).
            is_file e = Some True \<and> passes_policy e \<and> extension_of rp e = t)"
proof -
  let ?f = "\<lambda>e. str_path (rel_parts e)"
  have p: "p = record_files rp initial_result (filter (retained rp) (rglob fs))"
    using assms(1) by (rule analyze_Inr)
  have r: "retained rp = (\<lambda>e. is_file e = Some True \<and> passes_policy e)"
    by (rule ext) (rule retained_iff_passes [OF assms(2)])
  have s: "structure p =
      map ?f (filter (\<lambda>e. is_file e = Some True \<and> passes_policy e) (rglob fs))"
    unfolding p record_files_structure r by (simp add: initial_result_fields)
  have inj: "inj_on ?f (set (rglob fs))"
    using assms(3) by (simp add: distinct_map)
  have iff: "(?f e \<in> set (structure p)) = passes_policy e"
    if "e \<in> set (rglob fs)" "is_file e = Some True" for e
  proof
    assume "?f e \<in> set (structure p)"
    then obtain e' where e': "e' \<in> set (rglob fs)" "passes_policy e'" "?f e' = ?f e"
      unfolding s by auto
    with inj that(1) have "e' = e" by (auto dest: inj_onD)
    with e' show "passes_policy e" by simp
  next
    assume "passes_policy e"
    with that show "?f e \<in> set (structure p)" unfolding s by auto
  qed
  have big: "?f e \<notin> set (structure p)"
    if "e \<in> set (rglob fs)" "is_file e = Some True" "st_size e = Some n" "1048576 < n" for e n
  proof -
    from that(3,4) have "\<not> passes_policy e" by (simp add: passes_policy_def)
    with iff[OF that(1,2)] show ?thesis by simp
  qed
  have ft: "\<exists>e \<in> set (rglob fs). is_file e = Some True \<and> passes_policy e \<and> extension_of rp e = t"
    if "t \<in> file_types p" for t
    using that unfolding p record_files_file_types r by (auto simp: initial_result_fields)
  from s iff big ft show ?thesis by blast
qed

text \<open>
  C1 at the example repository below the root \<open>repo\<close>: the scan returns the example
  profile, the root has no ignored name, the relative paths are distinct, and the
  conclusions hold there, for a retained file and for the file below \<open>.git\<close>.
\<close>

theorem structure_follows_ignore_policy_witness:
  "analyze (directory example_walk) [''repo''] = Inr example_result \<and>
   ''repo'' \<notin> ignore_dirs \<and>
   distinct (map (\<lambda>e. str_path (rel_parts e)) (rglob (directory example_walk))) \<and>
   structure example_result =
     map (\<lambda>e. str_path (rel_parts e))
       (filter (\<lambda>e. is_file e = Some True \<and> passes_policy e) (rglob (directory example_walk))) \<and>
   (str_path (rel_parts (text_file [''Main.py''] ''print(1)'')) \<in> set (structure example_result)) =
     passes_policy (text_file [''Main.py''] ''print(1)'') \<and>
   (str_path (rel_parts (text_file [''.git'', ''config''] ''[core]'')) \<in> set (structure example_result)) =
     passes_policy (text_file [''.git'', ''config''] ''[core]'')"
proof -
  have root: "''repo'' \<notin> ignore_dirs"
    by (simp add: ignore_dirs_def)
  then have root': "\<forall>part \<in> set [''repo'']. part \<notin> ignore_dirs"
    by simp
  note c1 = structure_follows_ignore_policy [OF example_scan root' example_distinct]
  have m1: "text_file [''Main.py''] ''print(1)'' \<in> set (rglob (directory example_walk))"
    and m2: "text_file [''.git'', ''config''] ''[core]'' \<in> set (rglob (directory example_walk))"
    by (simp_all add: rglob_directory example_walk_def)
  have f1: "is_file (text_file [''Main.py''] ''print(1)'') = Some True"
    and f2: "is_file (text_file [''.git'', ''config''] ''[core]'') = Some True"
    by (simp_all add: text_file_def)
  from c1 m1 f1 m2 f2 example_scan example_distinct root show ?thesis by blast
qed

text \<open>
  C1 as stated fails: \<open>big.txt\<close> has 2 MiB and \<open>small.txt\<close> one byte. The large file is
  not in \<open>structure\<close>, but its extension \<open>.txt\<close> is in \<open>file_types\<close>, recorded for the
  small file.
\<close>

theorem large_file_extension_counterexample:
  "analyze (directory [text_file [''big.txt''] (replicate 2097152 CHR ''x''),
                       text_file [''small.txt''] ''s'']) [''repo''] =
     Inr \<lparr>file_types = {''.txt''}, languages = {''Text''}, structure = [''small.txt''],
          main_files = [], config_files = [], dependencies = [], project_type = ''unknown''\<rparr> \<and>
   is_file (text_file [''big.txt''] (replicate 2097152 CHR ''x'')) = Some True \<and>
   st_size (text_file [''big.txt''] (replicate 2097152 CHR ''x'')) = Some 2097152 \<and>
   lower (suffix_of (path_name (file_path [''repo'']
     (text_file [''big.txt''] (replicate 2097152 CHR ''x''))))) = ''.txt''"
  unfolding analyze_directory
  by (simp add: eval_defs)

subsection \<open>C2: the invalid-repository error\<close>

text \<open>
  Claim C2, amended. The scan fails with the invalid-repository error, which is
  \<open>ValueError\<close>, exactly when the root path does not exist. The constructor raises it, so
  nothing the walk could meet changes the outcome. The code makes no directory check.
\<close>

theorem scan_invalid_iff_missing: "(scan fs rp = Inl ValueError) = (\<not> path_exists fs)"
  by (simp add: scan_def init_def analyze_not_ValueError)

text \<open>
  C2 at a missing root.
\<close>

theorem scan_invalid_iff_missing_witness:
  "scan \<lparr>path_exists = False, path_is_dir = False, walk = []\<rparr> [''missing''] = Inl ValueError"
  using scan_invalid_iff_missing [of "\<lparr>path_exists = False, path_is_dir = False, walk = []\<rparr>" "[''missing'']"] by simp

text \<open>
  C2 as stated fails: a root that exists and is a regular file is accepted; the walk
  yields nothing, and the scan returns the empty profile.
\<close>

theorem regular_file_root_counterexample:
  "path_exists \<lparr>path_exists = True, path_is_dir = False, walk = []\<rparr> \<and>
   \<not> path_is_dir \<lparr>path_exists = True, path_is_dir = False, walk = []\<rparr> \<and>
   scan \<lparr>path_exists = True, path_is_dir = False, walk = []\<rparr> [''setup.py''] = Inr initial_result"
  by (simp add: scan_def init_def analyze_def rglob_def)


subsection \<open>C3: a failing stat call\<close>

text \<open>
  Claim C3 says that no failure on a single file makes the scan raise, the size check
  included. The code calls \<open>stat\<close> outside the \<open>try\<close> block that guards \<open>open\<close> and
  \<open>read\<close>. Here \<open>a.py\<close> has vanished between \<open>is_file\<close> and \<open>stat\<close>: the scan
  raises \<open>OSError\<close> instead of skipping the file and going on to \<open>b.py\<close>.
\<close>

theorem stat_failure_aborts_scan:
  "scan (directory [(text_file [''a.py''] ''x'')\<lparr>st_size := None\<rparr>, text_file [''b.py''] ''y''])
     [''repo''] = Inl OSError"
  by (simp add: scan_def init_def directory_def analyze_def rglob_def eval_defs)


subsection \<open>C4: the project type\<close>

text \<open>
  Claim C4. When the scan returns a profile, \<open>project_type\<close> is the language of the
  first retained file, in walk order, whose extension is \<open>.py\<close> or one of \<open>.js\<close>,
  \<open>.jsx\<close>, \<open>.ts\<close>, \<open>.tsx\<close>, and \<open>unknown\<close> when there is none. Once the scan of a
  prefix of the walk has set a concrete value, the rest of the walk does not change it.
  A repository in which no entry has such an extension, the empty one included, has
  project type \<open>unknown\<close>.
\<close>

theorem project_type_first_primary:
  assumes "analyze fs rp = Inr p"
  shows "project_type p =
           first_primary (map (extension_of rp) (filter (retained rp) (rglob fs))) \<and>
         (\<forall>es1 es2 p1. rglob fs = es1 @ es2 \<longrightarrow> analyze_loop rp es1 initial_result = Inr p1 \<longrightarrow>
            project_type p1 \<noteq> ''unknown'' \<longrightarrow> project_type p = project_type p1) \<and>
         ((\<forall>e \<in> set (rglob fs). primary_language (extension_of rp e) = None) \<longrightarrow>
            project_type p = ''unknown'')"
proof -
  have p: "p = record_files rp initial_result (filter (retained rp) (rglob fs))"
    using assms by (rule analyze_Inr)
  have a: "project_type p =
      first_primary (map (extension_of rp) (filter (retained rp) (rglob fs)))"
    unfolding p by (rule record_files_project_type_initial)
  have b: "project_type p = project_type p1"
    if "rglob fs = es1 @ es2" "analyze_loop rp es1 initial_result = Inr p1"
      "project_type p1 \<noteq> ''unknown''" for es1 es2 p1
  proof -
    have "p1 = record_files rp initial_result (filter (retained rp) es1)"
      using that(2) by (rule analyze_loop_Inr)
    then have "project_type p1 = first_primary (map (extension_of rp) (filter (retained rp) es1))"
      by (simp only: record_files_project_type_initial)
    with that(1,3) show ?thesis unfolding a by (simp add: first_primary_append)
  qed
  have c: "project_type p = ''unknown''"
    if "\<forall>e \<in> set (rglob fs). primary_language (extension_of rp e) = None"
    unfolding a using that by (intro first_primary_none) auto
  from a b c show ?thesis by blast
qed

text \<open>
  C4 at the example repository.
\<close>

theorem project_type_first_primary_witness:
  "analyze (directory example_walk) [''repo''] = Inr example_result \<and>
   project_type example_result =
     first_primary (map (extension_of [''repo''])
       (filter (retained [''repo'']) (rglob (directory example_walk))))"
  using project_type_first_primary [OF example_scan] example_scan by blast


subsection \<open>C5: dependencies from requirements files\<close>

text \<open>
  Claim C5. When the scan returns a profile, \<open>dependencies\<close> is the concatenation, in
  walk order, of what each retained file contributes: for a file whose lower-cased name is
  \<open>requirements.txt\<close>, the trimmed lines of its text that are not empty, do not start
  with \<open>#\<close> and contain \<open>==\<close>, in file order; nothing for any other file, and nothing
  when the text cannot be read. Such a file is in \<open>structure\<close> and in \<open>config_files\<close>
  whether or not its text can be read. Whether reads of the text succeed has no bearing
  on the scan returning: with the answers of \<open>read_text\<close> replaced by any others, failures
  included, the scan still returns a profile.
\<close>

theorem dependencies_from_requirements:
  assumes "analyze fs rp = Inr p"
  shows "dependencies p = concat (map (manifest_lines rp) (filter (retained rp) (rglob fs))) \<and>
         (\<forall>e \<in> set (rglob fs). retained rp e \<longrightarrow> filename_of rp e = ''requirements.txt'' \<longrightarrow>
            manifest_lines rp e =
              (case read_text e of None \<Rightarrow> [] | Some content \<Rightarrow> requirement_lines content) \<and>
            str_path (rel_parts e) \<in> set (structure p) \<and>
            str_path (rel_parts e) \<in> set (config_files p)) \<and>
         (\<forall>g. \<exists>p'. analyze (fs\<lparr>walk := map (\<lambda>e. e\<lparr>read_text := g e\<rparr>) (walk fs)\<rparr>) rp = Inr p')"
proof -
  have p: "p = record_files rp initial_result (filter (retained rp) (rglob fs))"
    and ok: "\<forall>e \<in> set (rglob fs). \<not> entry_raises rp e"
    using assms by (rule analyze_Inr)+
  have a: "dependencies p = concat (map (manifest_lines rp) (filter (retained rp) (rglob fs)))"
    unfolding p record_files_dependencies by (simp add: initial_result_fields)
  have b: "manifest_lines rp e =
        (case read_text e of None \<Rightarrow> [] | Some content \<Rightarrow> requirement_lines content) \<and>
      str_path (rel_parts e) \<in> set (structure p) \<and>
      str_path (rel_parts e) \<in> set (config_files p)"
    if "e \<in> set (rglob fs)" "retained rp e" "filename_of rp e = ''requirements.txt''" for e
  proof -
    from that(3) have "filename_of rp e \<in> config_names" by (simp add: config_names_def)
    with that(1,2) have "str_path (rel_parts e) \<in> set (config_files p)"
      unfolding p record_files_config_files by (auto simp: initial_result_fields)
    moreover from that(1,2) have "str_path (rel_parts e) \<in> set (structure p)"
      unfolding p by (intro in_structure) simp
    ultimately show ?thesis using that(3) by (simp add: manifest_lines_def)
  qed
  have c: "\<exists>p'. analyze (fs\<lparr>walk := map (\<lambda>e. e\<lparr>read_text := g e\<rparr>) (walk fs)\<rparr>) rp = Inr p'" for g
  proof -
    have "rglob (fs\<lparr>walk := map (\<lambda>e. e\<lparr>read_text := g e\<rparr>) (walk fs)\<rparr>) =
        map (\<lambda>e. e\<lparr>read_text := g e\<rparr>) (rglob fs)"
      by (simp add: rglob_def)
    with ok show ?thesis by (simp add: analyze_def analyze_loop_closed)
  qed
  from a b c show ?thesis by blast
qed

text \<open>
  C5 at the example repository, and with every \<open>read_text\<close> failing.
\<close>

theorem dependencies_from_requirements_witness:
  "analyze (directory example_walk) [''repo''] = Inr example_result \<and>
   dependencies example_result =
     concat (map (manifest_lines [''repo''])
       (filter (retained [''repo'']) (rglob (directory example_walk)))) \<and>
   (\<exists>p'. analyze ((directory example_walk)
      \<lparr>walk := map (\<lambda>e. e\<lparr>read_text := None\<rparr>) (walk (directory example_walk))\<rparr>) [''repo''] = Inr p')"
proof -
  note c5 = dependencies_from_requirements [OF example_scan]
  from c5 have a: "dependencies example_result =
     concat (map (manifest_lines [''repo''])
       (filter (retained [''repo'']) (rglob (directory example_walk))))"
    by (rule conjunct1)
  from c5 have "\<forall>g. \<exists>p'. analyze ((directory example_walk)
      \<lparr>walk := map (\<lambda>e. e\<lparr>read_text := g e\<rparr>) (walk (directory example_walk))\<rparr>) [''repo''] = Inr p'"
    by (rule conjunct2 [OF conjunct2])
  then have c: "\<exists>p'. analyze ((directory example_walk)
      \<lparr>walk := map (\<lambda>e. e\<lparr>read_text := None\<rparr>) (walk (directory example_walk))\<rparr>) [''repo''] = Inr p'"
    by (rule spec [where x = "\<lambda>e. None"])
  from example_scan a c show ?thesis by (intro conjI)
qed


subsection \<open>C6: two scans of one tree\<close>



subsection \<open>C7: entry points and configuration files\<close>

text \<open>
  Claim C7. When the scan returns a profile, \<open>main_files\<close> is the sequence of the
  relative paths of the retained files whose lower-cased name is one of the four
  entry-point names, and \<open>config_files\<close> that of the retained files whose lower-cased
  name is one of the eight configuration names, both in walk order.
\<close>

theorem main_and_config_files:
  assumes "analyze fs rp = Inr p"
  shows "main_files p =
           map (\<lambda>e. str_path (rel_parts e))
             (filter (\<lambda>e. filename_of rp e \<in> main_names) (filter (retained rp) (rglob fs))) \<and>
         config_files p =
           map (\<lambda>e. str_path (rel_parts e))
             (filter (\<lambda>e. filename_of rp e \<in> config_names) (filter (retained rp) (rglob fs)))"
proof -
  have p: "p = record_files rp initial_result (filter (retained rp) (rglob fs))"
    using assms by (rule analyze_Inr)
  show ?thesis
    unfolding p record_files_main_files record_files_config_files
    by (simp add: initial_result_fields)
qed

text \<open>
  C7 at the example repository.
\<close>

theorem main_and_config_files_witness:
  "analyze (directory example_walk) [''repo''] = Inr example_result \<and>
   main_files example_result =
     map (\<lambda>e. str_path (rel_parts e))
       (filter (\<lambda>e. filename_of [''repo''] e \<in> main_names)
          (filter (retained [''repo'']) (rglob (directory example_walk)))) \<and>
   config_files example_result =
     map (\<lambda>e. str_path (rel_parts e))
       (filter (\<lambda>e. filename_of [''repo''] e \<in> config_names)
          (filter (retained [''repo'']) (rglob (directory example_walk))))"
  using main_and_config_files [OF example_scan] example_scan by blast


subsection \<open>C8: file types and languages come from the structure\<close>

text \<open>
  Claim C8. When the scan returns a profile, every member of \<open>file_types\<close> is not
  empty, starts with a dot, and is the lower-cased extension of a retained file whose
  path is in \<open>structure\<close>; every member of \<open>languages\<close> is the language that the table
  gives for the extension of such a file; and every retained file with a non-empty
  extension has it in \<open>file_types\<close>, whether or not the table maps it to a language.
\<close>

theorem file_types_languages_from_structure:
  assumes "analyze fs rp = Inr p"
  shows "(\<forall>t \<in> file_types p. t \<noteq> [] \<and> startswith t ''.'' \<and>
            (\<exists>e \<in> set (rglob fs). retained rp e \<and>
               str_path (rel_parts e) \<in> set (structure p) \<and>
               t = lower (suffix_of (path_name (file_path rp e))))) \<and>
         (\<forall>l \<in> languages p. \<exists>e \<in> set (rglob fs). retained rp e \<and>
               str_path (rel_parts e) \<in> set (structure p) \<and>
               language_of (lower (suffix_of (path_name (file_path rp e)))) = Some l) \<and>
         (\<forall>e \<in> set (rglob fs). retained rp e \<longrightarrow>
            lower (suffix_of (path_name (file_path rp e))) \<noteq> [] \<longrightarrow>
            lower (suffix_of (path_name (file_path rp e))) \<in> file_types p)"
proof -
  let ?k = "filter (retained rp) (rglob fs)"
  have p: "p = record_files rp initial_result ?k"
    using assms by (rule analyze_Inr)
  have st: "str_path (rel_parts e) \<in> set (structure p)" if "e \<in> set ?k" for e
    unfolding p using that by (rule in_structure)
  have a: "t \<noteq> [] \<and> startswith t ''.'' \<and>
            (\<exists>e \<in> set (rglob fs). retained rp e \<and>
               str_path (rel_parts e) \<in> set (structure p) \<and>
               t = lower (suffix_of (path_name (file_path rp e))))"
    if "t \<in> file_types p" for t
  proof -
    from that obtain e where e: "e \<in> set ?k" "t = extension_of rp e" "t \<noteq> []"
      unfolding p record_files_file_types by (auto simp: initial_result_fields)
    from e(2,3) have "suffix_of (path_name (file_path rp e)) \<noteq> []"
      by (auto simp: extension_of_def lower_def)
    then have "startswith t ''.''"
      unfolding e(2) extension_of_def by (rule suffix_of_dot)
    with e st[OF e(1)] show ?thesis by (auto simp: extension_of_def)
  qed
  have b: "\<exists>e \<in> set (rglob fs). retained rp e \<and>
               str_path (rel_parts e) \<in> set (structure p) \<and>
               language_of (lower (suffix_of (path_name (file_path rp e)))) = Some l"
    if "l \<in> languages p" for l
  proof -
    from that obtain e where e: "e \<in> set ?k" "language_of (extension_of rp e) = Some l"
      unfolding p record_files_languages by (auto simp: initial_result_fields)
    with st[OF e(1)] show ?thesis by (auto simp: extension_of_def)
  qed
  have c: "lower (suffix_of (path_name (file_path rp e))) \<in> file_types p"
    if "e \<in> set (rglob fs)" "retained rp e" "lower (suffix_of (path_name (file_path rp e))) \<noteq> []" for e
    unfolding p record_files_file_types using that by (auto simp: extension_of_def)
  from a b c show ?thesis by blast
qed

text \<open>
  C8 at the example repository, where \<open>.xyz\<close> maps to no language.
\<close>

theorem file_types_languages_from_structure_witness:
  "analyze (directory example_walk) [''repo''] = Inr example_result \<and>
   retained [''repo''] (text_file [''notes.xyz''] ''n'') \<and>
   lower (suffix_of (path_name (file_path [''repo''] (text_file [''notes.xyz''] ''n'')))) = ''.xyz'' \<and>
   language_of ''.xyz'' = None \<and>
   lower (suffix_of (path_name (file_path [''repo''] (text_file [''notes.xyz''] ''n''))))
     \<in> file_types example_result"
proof -
  let ?e = "text_file [''notes.xyz''] ''n''"
  note c8 = file_types_languages_from_structure [OF example_scan]
  have m: "?e \<in> set (rglob (directory example_walk))"
    by (simp add: rglob_directory example_walk_def)
  have r: "retained [''repo''] ?e"
    by (simp add: retained_def eval_defs)
  have s: "lower (suffix_of (path_name (file_path [''repo''] ?e))) = ''.xyz''"
    by (simp add: eval_defs)
  have l: "language_of ''.xyz'' = None"
    by (simp add: language_of_def)
  from s have ne: "lower (suffix_of (path_name (file_path [''repo''] ?e))) \<noteq> []"
    by simp
  from c8 m r ne have "lower (suffix_of (path_name (file_path [''repo''] ?e)))
     \<in> file_types example_result" by blast
  with example_scan r s l show ?thesis by (intro conjI)
qed

subsection \<open>C9: a file that bears an ignored name\<close>

text \<open>
  Claim C9. The ignored names are compared with every component of the path, the final
  one included. A regular file (one for which \<open>is_file()\<close> answers \<open>True\<close>) whose own
  name is one of the six names is ignored wherever it sits, by the name test alone,
  which comes before the size check and the read; and the scan of a walk that contains
  it equals the scan of the walk without it.
\<close>

theorem ignored_name_file_excluded:
  assumes "is_file e = Some True" and "path_name (file_path rp e) \<in> ignore_dirs"
  shows "should_ignore_file rp e = Inr True \<and>
         analyze (directory (es1 @ e # es2)) rp = analyze (directory (es1 @ es2)) rp"
  using ignored_name[OF assms(2)] ignored_skipped[OF assms(1) ignored_name[OF assms(2)]]
  by (simp add: analyze_directory)

text \<open>C9 at a regular file \<open>src/venv\<close>.\<close>

theorem ignored_name_file_excluded_witness:
  "is_file (text_file [''src'', ''venv''] ''x'') = Some True \<and>
   path_name (file_path [''repo''] (text_file [''src'', ''venv''] ''x'')) \<in> ignore_dirs \<and>
   should_ignore_file [''repo''] (text_file [''src'', ''venv''] ''x'') = Inr True \<and>
   analyze (directory ([text_file [''Main.py''] ''print(1)''] @
       text_file [''src'', ''venv''] ''x'' # [])) [''repo''] =
     analyze (directory ([text_file [''Main.py''] ''print(1)''] @ [])) [''repo'']"
proof -
  have f: "is_file (text_file [''src'', ''venv''] ''x'') = Some True"
    by (simp add: text_file_def)
  have h: "path_name (file_path [''repo''] (text_file [''src'', ''venv''] ''x'')) \<in> ignore_dirs"
    by (simp add: path_name_def file_path_def text_file_def ignore_dirs_def)
  from ignored_name_file_excluded [OF f h] f h show ?thesis by blast
qed

subsection \<open>C10: files without an extension\<close>

text \<open>
  Claim C10. A retained file whose extension is empty is in \<open>structure\<close>, and the scan
  of the walk without it returns a profile with the same \<open>file_types\<close>, \<open>languages\<close>
  and \<open>project_type\<close>: the file adds nothing to them. Its name is still compared with
  the entry-point and configuration names, so its path enters \<open>main_files\<close> or
  \<open>config_files\<close> when the lower-cased name is in the respective set (of the names in
  the code only \<open>dockerfile\<close> has an empty extension).
\<close>

theorem empty_extension_file:
  assumes "analyze (directory (es1 @ e # es2)) rp = Inr p"
    and "retained rp e" and "lower (suffix_of (path_name (file_path rp e))) = []"
  shows "\<exists>p'. analyze (directory (es1 @ es2)) rp = Inr p' \<and>
           file_types p = file_types p' \<and> languages p = languages p' \<and>
           project_type p = project_type p' \<and>
           str_path (rel_parts e) \<in> set (structure p) \<and>
           (lower (path_name (file_path rp e)) \<in> main_names \<longrightarrow>
              str_path (rel_parts e) \<in> set (main_files p)) \<and>
           (lower (path_name (file_path rp e)) \<in> config_names \<longrightarrow>
              str_path (rel_parts e) \<in> set (config_files p))"
proof -
  let ?k = "filter (retained rp) (es1 @ e # es2)" and ?k' = "filter (retained rp) (es1 @ es2)"
  let ?p' = "record_files rp initial_result ?k'"
  have ext: "extension_of rp e = []" using assms(3) by (simp add: extension_of_def)
  have p: "p = record_files rp initial_result ?k"
    and ok: "\<forall>x \<in> set (es1 @ e # es2). \<not> entry_raises rp x"
    using assms(1) unfolding analyze_directory by (rule analyze_loop_Inr)+
  have k: "?k = filter (retained rp) es1 @ e # filter (retained rp) es2"
    using assms(2) by simp
  have run: "analyze (directory (es1 @ es2)) rp = Inr ?p'"
    using ok by (simp add: analyze_directory analyze_loop_closed)
  have ft: "file_types p = file_types ?p'"
    unfolding p record_files_file_types k using ext by auto
  have lg: "languages p = languages ?p'"
    unfolding p record_files_languages k using ext by (simp add: empty_extension_no_language)
  have pt: "project_type p = project_type ?p'"
    unfolding p record_files_project_type_initial k using ext
    by (simp add: first_primary_append empty_extension_no_language)
  have st: "str_path (rel_parts e) \<in> set (structure p)"
    unfolding p k by (rule in_structure) simp
  have mf: "str_path (rel_parts e) \<in> set (main_files p)"
    if "lower (path_name (file_path rp e)) \<in> main_names"
    unfolding p k record_files_main_files using that by (simp add: filename_of_def)
  have cf: "str_path (rel_parts e) \<in> set (config_files p)"
    if "lower (path_name (file_path rp e)) \<in> config_names"
    unfolding p k record_files_config_files using that by (simp add: filename_of_def)
  from run ft lg pt st mf cf show ?thesis by blast
qed

text \<open>
  C10 at a repository that holds only a \<open>Dockerfile\<close>.
\<close>

theorem empty_extension_file_witness:
  "analyze (directory ([] @ text_file [''Dockerfile''] ''FROM a'' # [])) [''repo''] =
     Inr \<lparr>file_types = {}, languages = {}, structure = [''Dockerfile''], main_files = [],
          config_files = [''Dockerfile''], dependencies = [], project_type = ''unknown''\<rparr> \<and>
   retained [''repo''] (text_file [''Dockerfile''] ''FROM a'') \<and>
   lower (suffix_of (path_name (file_path [''repo''] (text_file [''Dockerfile''] ''FROM a'')))) = [] \<and>
   lower (path_name (file_path [''repo''] (text_file [''Dockerfile''] ''FROM a''))) \<in> config_names \<and>
   (\<exists>p'. analyze (directory ([] @ [])) [''repo''] = Inr p' \<and> file_types p' = {} \<and> languages p' = {})"
proof -
  let ?e = "text_file [''Dockerfile''] ''FROM a''"
  let ?p = "\<lparr>file_types = {}, languages = {}, structure = [''Dockerfile''], main_files = [],
          config_files = [''Dockerfile''], dependencies = [], project_type = ''unknown''\<rparr>"
  have h1: "analyze (directory ([] @ ?e # [])) [''repo''] = Inr ?p"
    unfolding analyze_directory by (simp add: eval_defs)
  have h2: "retained [''repo''] ?e"
    by (simp add: retained_def eval_defs)
  have h3: "lower (suffix_of (path_name (file_path [''repo''] ?e))) = []"
    by (simp add: eval_defs)
  have h4: "lower (path_name (file_path [''repo''] ?e)) \<in> config_names"
    by (simp add: eval_defs)
  from empty_extension_file [OF h1 h2 h3] h1 h2 h3 h4 show ?thesis by auto
qed

end
